theory Spec2Isabelle
  imports Main
begin

section \<open>Python values and exceptions\<close>

text \<open>
  The module \<^verbatim>\<open>flask_security/totp.py\<close> is a thin class \<^verbatim>\<open>Totp\<close> over passlib's
  \<^verbatim>\<open>TOTP\<close>. Exceptions are values: a function that can raise returns
  \<open>exn + 'a\<close>, with \<open>Inl\<close> the exception that propagates. The constructor and
  \<^verbatim>\<open>set_last_counter\<close>, which leaves a store behind also when it raises, have result
  types of their own.

  \<^verbatim>\<open>TokenError\<close> is the class the module catches; the cause it carries (no counter of
  the window matches, or the matched counter was used before) is what passlib tells
  apart by subclasses of \<^verbatim>\<open>TokenError\<close>. \<^verbatim>\<open>ValueError\<close> is what \<^verbatim>\<open>__init__\<close> raises.
  \<open>UnknownKeyError\<close> and \<open>DecryptError\<close> are the two failures of decrypting an
  envelope; \<open>ZeroDivisionError\<close> is Python's, for a step duration of zero.
\<close>

datatype cause = NoMatch | Replay

datatype exn =
    ValueError string
  | TokenError cause
  | UnknownKeyError
  | DecryptError
  | ZeroDivisionError

text \<open>
  The value given as \<^verbatim>\<open>secrets\<close> to the constructor. Python is dynamically typed, so
  the argument may be any object; only a \<^verbatim>\<open>dict\<close> passes \<^verbatim>\<open>isinstance(secrets, dict)\<close>.
  A dict is the list of its items (key and value), and \<^verbatim>\<open>len\<close> is the number of
  items.
\<close>

datatype pyobj =
    PyNone
  | PyInt int
  | PyStr string
  | PyList "pyobj list"
  | PyDict "(pyobj \<times> pyobj) list"

section \<open>The passlib interface used by the module\<close>

text \<open>
  passlib is not part of the repository. The factory that \<^verbatim>\<open>TOTP.using(...)\<close> returns
  and that the module keeps in \<^verbatim>\<open>self._totp\<close> is a record of the operations the module
  calls on it, over three types the module never looks into: \<open>'e\<close>, the stored
  \<^verbatim>\<open>totp_secret\<close> (an encrypted json string); \<open>'t\<close>, a TOTP object; \<open>'m\<close>, the
  \<^verbatim>\<open>TotpMatch\<close> that \<^verbatim>\<open>verify\<close> returns. What the library draws from its surroundings is
  an argument: the random bytes of \<^verbatim>\<open>new()\<close>, and the clock (seconds) read by
  \<^verbatim>\<open>generate()\<close> and \<^verbatim>\<open>verify()\<close>, which is the last argument of both.
  \<open>TOTP_to_json\<close> is \<^verbatim>\<open>to_json(encrypt=True)\<close>, the only way the module calls it, and
  \<open>TOTP_generate\<close> is \<^verbatim>\<open>generate().token\<close>. The arguments of \<open>TOTP_verify\<close> are the
  token, the stored secret, \<^verbatim>\<open>window\<close>, \<^verbatim>\<open>last_counter\<close> and the clock.
\<close>

record ('e, 't, 'm) TOTP =
  TOTP_new :: "string \<Rightarrow> 't"
  TOTP_to_json :: "'t \<Rightarrow> exn + 'e"
  TOTP_from_source :: "'e \<Rightarrow> exn + 't"
  TOTP_generate :: "'t \<Rightarrow> int \<Rightarrow> exn + string"
  TOTP_verify :: "string \<Rightarrow> 'e \<Rightarrow> int \<Rightarrow> int option \<Rightarrow> int \<Rightarrow> exn + 'm"

section \<open>The class \<^verbatim>\<open>Totp\<close>\<close>

text \<open>
  An object of the class, or of a subclass: the factory \<^verbatim>\<open>self._totp\<close> and the two
  methods a subclass overrides. The methods read and write a store of type \<open>'s\<close>
  that belongs to the application (a cache or a database), for a user of type \<open>'u\<close>;
  the store is passed in and returned. An override is arbitrary code and may raise:
  \<^verbatim>\<open>get_last_counter\<close> reads the store and returns the last counter (\<open>None\<close> when
  there is none) or raises; \<^verbatim>\<open>set_last_counter\<close> leaves a store behind and either
  returns (\<open>None\<close>) or raises the exception given.
\<close>

record ('e, 't, 'm, 's, 'u) Totp =
  totp :: "('e, 't, 'm) TOTP"
  self_get_last_counter :: "'s \<Rightarrow> 'u \<Rightarrow> exn + int option"
  self_set_last_counter :: "'u \<Rightarrow> 'm \<Rightarrow> 's \<Rightarrow> exn option \<times> 's"

text \<open>
  The two methods as the class itself defines them: \<^verbatim>\<open>return None\<close> and \<^verbatim>\<open>pass\<close>.
  Neither raises, and the second leaves the store as it is.
\<close>

definition get_last_counter :: "'s \<Rightarrow> 'u \<Rightarrow> exn + int option" where
  "get_last_counter st user = Inr None"

definition set_last_counter :: "'u \<Rightarrow> 'm \<Rightarrow> 's \<Rightarrow> exn option \<times> 's" where
  "set_last_counter user tmatch st = (None, st)"

text \<open>An object of the class itself over a factory: neither method is overridden.\<close>

definition plain :: "('e, 't, 'm) TOTP \<Rightarrow> ('e, 't, 'm, 's, 'u) Totp" where
  "plain factory =
     \<lparr>totp = factory,
      self_get_last_counter = get_last_counter,
      self_set_last_counter = set_last_counter\<rparr>"




text \<open>\<^verbatim>\<open>generate_totp_password\<close>: \<^verbatim>\<open>self._totp.from_source(totp_secret).generate().token\<close>.\<close>

definition generate_totp_password ::
  "('e, 't, 'm, 's, 'u) Totp \<Rightarrow> 'e \<Rightarrow> int \<Rightarrow> exn + string" where
  "generate_totp_password self totp_secret now =
     (case TOTP_from_source (totp self) totp_secret of
        Inl e \<Rightarrow> Inl e
      | Inr t \<Rightarrow> TOTP_generate (totp self) t now)"

text \<open>\<^verbatim>\<open>generate_totp_secret\<close>: \<^verbatim>\<open>self._totp.new().to_json(encrypt=True)\<close>.\<close>

definition generate_totp_secret ::
  "('e, 't, 'm, 's, 'u) Totp \<Rightarrow> string \<Rightarrow> exn + 'e" where
  "generate_totp_secret self entropy =
     TOTP_to_json (totp self) (TOTP_new (totp self) entropy)"

text \<open>
  What a call of \<^verbatim>\<open>verify_totp\<close> leaves behind: the value returned or the exception
  raised, the store after the call, and the calls of \<^verbatim>\<open>set_last_counter\<close> it made,
  each with its two arguments, whether the call returned or raised.
\<close>

record ('m, 's, 'u) outcome =
  returned :: "exn + bool"
  store :: 's
  writes :: "('u \<times> 'm) list"

text \<open>
  The handler of \<^verbatim>\<open>verify_totp\<close>: \<^verbatim>\<open>except TokenError: return False\<close> catches a
  \<open>TokenError\<close> whatever its cause; any other exception propagates. The store and
  the calls made are those at the point where the exception was raised.
\<close>

definition except_TokenError ::
  "exn \<Rightarrow> 's \<Rightarrow> ('u \<times> 'm) list \<Rightarrow> ('m, 's, 'u) outcome" where
  "except_TokenError e st calls =
     (case e of
        TokenError c \<Rightarrow> \<lparr>returned = Inr False, store = st, writes = calls\<rparr>
      | _ \<Rightarrow> \<lparr>returned = Inl e, store = st, writes = calls\<rparr>)"

text \<open>
  \<^verbatim>\<open>verify_totp(self, token, totp_secret, user, window=0)\<close>. The optional argument is
  \<open>None\<close> when the caller leaves it out. The three calls stand inside the \<^verbatim>\<open>try\<close>
  block in the order Python makes them: \<^verbatim>\<open>self.get_last_counter(user)\<close> as an
  argument of \<^verbatim>\<open>self._totp.verify\<close>, then \<^verbatim>\<open>verify\<close>, then
  \<^verbatim>\<open>self.set_last_counter(user, tmatch)\<close>; an exception of any of them reaches the
  handler.
\<close>

definition verify_totp ::
  "('e, 't, 'm, 's, 'u) Totp \<Rightarrow> string \<Rightarrow> 'e \<Rightarrow> 'u \<Rightarrow> int option \<Rightarrow> int \<Rightarrow> 's
     \<Rightarrow> ('m, 's, 'u) outcome" where
  "verify_totp self token totp_secret user window now st =
     (case self_get_last_counter self st user of
        Inl e \<Rightarrow> except_TokenError e st []
      | Inr last_counter \<Rightarrow>
          (case TOTP_verify (totp self) token totp_secret
                  (case window of None \<Rightarrow> 0 | Some w \<Rightarrow> w) last_counter now of
             Inl e \<Rightarrow> except_TokenError e st []
           | Inr tmatch \<Rightarrow>
               (case self_set_last_counter self user tmatch st of
                  (None, st') \<Rightarrow>
                    \<lparr>returned = Inr True, store = st', writes = [(user, tmatch)]\<rparr>
                | (Some e, st') \<Rightarrow> except_TokenError e st' [(user, tmatch)])))"

section \<open>The library and the collaborator, after the specification\<close>

text \<open>
  passlib and the application's store are outside the repository. Where a property
  depends on what they do, they are the components of the specification: SecretCodec,
  TokenEngine, ReplayGuard and the steps of the Verifier that the module leaves to the
  library.
\<close>

text \<open>
  Modelled from the spec: the primitives the specification takes from a cryptographic
  library (section 1): \<open>code_at(secret, counter)\<close>, a function of the secret and the
  counter only, and the symmetric cipher of SecretCodec, whose decryption checks the
  integrity of the ciphertext (\<open>None\<close> when the check fails).
\<close>

record primitives =
  code_at :: "string \<Rightarrow> int \<Rightarrow> string"
  cipher_encrypt :: "string \<Rightarrow> string \<Rightarrow> string"
  cipher_decrypt :: "string \<Rightarrow> string \<Rightarrow> string option"

text \<open>
  Modelled from the spec: the algorithm parameters frozen into an envelope (issuer,
  digest, number of digits, step duration in seconds).
\<close>

record params =
  p_issuer :: string
  p_digest :: string
  p_digits :: nat
  p_step_duration :: int

text \<open>
  Modelled from the spec: KeyRing, a mapping from key identifier to key material with a
  designated current key identifier.
\<close>

record keyring =
  kr_keys :: "string \<rightharpoonup> string"
  kr_current :: string

text \<open>
  Modelled from the spec: EncryptedSecretEnvelope, the ciphertext of a secret tagged
  with the identifier of the key used and with the frozen parameters.
\<close>

record envelope =
  env_key_id :: string
  env_ciphertext :: string
  env_params :: params

text \<open>Modelled from the spec: a Secret in the clear together with its parameters.\<close>

record totp_instance =
  i_secret :: string
  i_params :: params

text \<open>
  passlib's \<^verbatim>\<open>TotpMatch\<close>, the object that \<^verbatim>\<open>verify\<close> returns and that
  \<^verbatim>\<open>set_last_counter\<close> receives (its docstring: a \<^verbatim>\<open>TotpMatch\<close> as returned from
  \<^verbatim>\<open>totp.verify()\<close>). It carries the matched counter, which is the specification's
  \<open>Matched(counter)\<close>, and the time of the match.
\<close>

record TotpMatch =
  tm_counter :: int
  tm_time :: int

text \<open>
  Modelled from the spec: \<open>encrypt(secret, keyring)\<close> encrypts under the keyring's
  current key and tags the envelope with that key identifier and the parameters. The
  specification does not say what happens when the current identifier is not a key of
  the keyring; here that is \<open>UnknownKeyError\<close>.
\<close>

definition encrypt :: "primitives \<Rightarrow> totp_instance \<Rightarrow> keyring \<Rightarrow> exn + envelope" where
  "encrypt P t kr =
     (case kr_keys kr (kr_current kr) of
        None \<Rightarrow> Inl UnknownKeyError
      | Some k \<Rightarrow>
          Inr \<lparr>env_key_id = kr_current kr,
               env_ciphertext = cipher_encrypt P k (i_secret t),
               env_params = i_params t\<rparr>)"

text \<open>
  Modelled from the spec: \<open>decrypt(envelope, keyring)\<close> looks up the tagged key
  identifier, fails with \<open>UnknownKeyError\<close> if it is absent and with \<open>DecryptError\<close>
  on an integrity-check failure.
\<close>

definition decrypt :: "primitives \<Rightarrow> envelope \<Rightarrow> keyring \<Rightarrow> exn + totp_instance" where
  "decrypt P env kr =
     (case kr_keys kr (env_key_id env) of
        None \<Rightarrow> Inl UnknownKeyError
      | Some k \<Rightarrow>
          (case cipher_decrypt P k (env_ciphertext env) of
             None \<Rightarrow> Inl DecryptError
           | Some s \<Rightarrow> Inr \<lparr>i_secret = s, i_params = env_params env\<rparr>))"

text \<open>
  Modelled from the spec: Counter is \<open>floor(unix_time / step_duration)\<close>. Python's
  \<^verbatim>\<open>//\<close> and \<open>div\<close> on \<open>int\<close> both round down; a zero divisor raises.
\<close>

definition floordiv :: "int \<Rightarrow> int \<Rightarrow> exn + int" where
  "floordiv a b = (if b = 0 then Inl ZeroDivisionError else Inr (a div b))"

text \<open>
  Modelled from the spec: the counters of the inclusive range
  \<open>[center_counter - window, center_counter + window]\<close> in order of smallest absolute
  distance from the centre first. The specification leaves open which of the two
  counters at the same distance comes first; here it is the earlier one.
\<close>

fun candidates :: "int \<Rightarrow> nat \<Rightarrow> int list" where
  "candidates center_counter 0 = [center_counter]"
| "candidates center_counter (Suc d) =
     candidates center_counter d @ [center_counter - int (Suc d), center_counter + int (Suc d)]"

text \<open>
  Modelled from the spec: \<open>find_matching_counter\<close> returns the first counter of the
  search order whose code equals the submitted code, and no match if there is none.
\<close>

definition find_matching_counter ::
  "primitives \<Rightarrow> string \<Rightarrow> string \<Rightarrow> int \<Rightarrow> nat \<Rightarrow> int option" where
  "find_matching_counter P secret submitted_code center_counter window =
     List.find (\<lambda>c. code_at P secret c = submitted_code) (candidates center_counter window)"

text \<open>
  Modelled from the spec: \<open>admissible(candidate_counter, last_counter)\<close> holds only if
  the last counter is absent or the candidate is greater than it.
\<close>

definition admissible :: "int \<Rightarrow> int option \<Rightarrow> bool" where
  "admissible candidate_counter last_counter =
     (case last_counter of None \<Rightarrow> True | Some n \<Rightarrow> n < candidate_counter)"

text \<open>
  Modelled from the spec: steps 1 to 4 of the Verifier. Decrypt the envelope, compute
  the centre counter from the clock and the envelope's step duration, convert the
  window from seconds to counters (\<open>window_seconds / step_duration\<close>, minimum 0), and
  ask for the matching counter.
\<close>

definition matching_counter ::
  "primitives \<Rightarrow> keyring \<Rightarrow> string \<Rightarrow> envelope \<Rightarrow> int \<Rightarrow> int \<Rightarrow> exn + int option" where
  "matching_counter P kr submitted_code env window_seconds now =
     (case decrypt P env kr of
        Inl e \<Rightarrow> Inl e
      | Inr t \<Rightarrow>
          (case floordiv now (p_step_duration (i_params t)) of
             Inl e \<Rightarrow> Inl e
           | Inr center_counter \<Rightarrow>
               (case floordiv window_seconds (p_step_duration (i_params t)) of
                  Inl e \<Rightarrow> Inl e
                | Inr w \<Rightarrow>
                    Inr (find_matching_counter P (i_secret t) submitted_code
                           center_counter (nat (max 0 w))))))"

text \<open>
  Modelled from the spec: steps 5 and 6 of the Verifier, the part of them that passlib's
  \<^verbatim>\<open>verify\<close> does with the \<^verbatim>\<open>last_counter\<close> it is given. No match and a counter that is
  not admissible both raise \<open>TokenError\<close>; a match that is admissible is returned.
\<close>

definition spec_verify ::
  "primitives \<Rightarrow> keyring \<Rightarrow> string \<Rightarrow> envelope \<Rightarrow> int \<Rightarrow> int option \<Rightarrow> int
     \<Rightarrow> exn + TotpMatch" where
  "spec_verify P kr submitted_code env window_seconds last_counter now =
     (case matching_counter P kr submitted_code env window_seconds now of
        Inl e \<Rightarrow> Inl e
      | Inr None \<Rightarrow> Inl (TokenError NoMatch)
      | Inr (Some c) \<Rightarrow>
          if admissible c last_counter then Inr \<lparr>tm_counter = c, tm_time = now\<rparr>
          else Inl (TokenError Replay))"

text \<open>
  Modelled from the spec: the code of a secret at a point in time is \<open>code_at\<close> of the
  counter of that time.
\<close>

definition spec_generate :: "primitives \<Rightarrow> totp_instance \<Rightarrow> int \<Rightarrow> exn + string" where
  "spec_generate P t now =
     (case floordiv now (p_step_duration (i_params t)) of
        Inl e \<Rightarrow> Inl e
      | Inr c \<Rightarrow> Inr (code_at P (i_secret t) c))"

text \<open>
  Modelled from the spec: the factory over a keyring and the parameters of new secrets.
  \<open>generate_secret(params)\<close> is the random bytes drawn, with the parameters.
\<close>

definition spec_TOTP ::
  "primitives \<Rightarrow> keyring \<Rightarrow> params \<Rightarrow> (envelope, totp_instance, TotpMatch) TOTP" where
  "spec_TOTP P kr prm =
     \<lparr>TOTP_new = (\<lambda>entropy. \<lparr>i_secret = entropy, i_params = prm\<rparr>),
      TOTP_to_json = (\<lambda>t. encrypt P t kr),
      TOTP_from_source = (\<lambda>env. decrypt P env kr),
      TOTP_generate = spec_generate P,
      TOTP_verify = spec_verify P kr\<rparr>"

text \<open>
  Modelled from the spec: the external collaborator that keeps the last counter of each
  user (sections 4.3 and 6), as a subclass implements it: \<^verbatim>\<open>set_last_counter\<close> stores
  the counter of the match it is given, \<^verbatim>\<open>get_last_counter\<close> returns what is stored.
  Neither raises.
\<close>

definition cache_get_last_counter :: "('u \<rightharpoonup> int) \<Rightarrow> 'u \<Rightarrow> exn + int option" where
  "cache_get_last_counter st user = Inr (st user)"

definition cache_set_last_counter ::
  "'u \<Rightarrow> TotpMatch \<Rightarrow> ('u \<rightharpoonup> int) \<Rightarrow> exn option \<times> ('u \<rightharpoonup> int)" where
  "cache_set_last_counter user tmatch st = (None, st(user \<mapsto> tm_counter tmatch))"

definition cached ::
  "('e, 't, TotpMatch) TOTP \<Rightarrow> ('e, 't, TotpMatch, 'u \<rightharpoonup> int, 'u) Totp" where
  "cached factory =
     \<lparr>totp = factory,
      self_get_last_counter = cache_get_last_counter,
      self_set_last_counter = cache_set_last_counter\<rparr>"

section \<open>Sequences of calls\<close>

text \<open>
  The store after a sequence of calls of \<^verbatim>\<open>verify_totp\<close> on one object, each call
  with its token, stored secret, user, window and clock, and each on the store the
  call before it left.
\<close>

fun after_calls ::
  "('e, 't, 'm, 's, 'u) Totp \<Rightarrow> (string \<times> 'e \<times> 'u \<times> int option \<times> int) list \<Rightarrow> 's \<Rightarrow> 's" where
  "after_calls self [] st = st"
| "after_calls self ((token, totp_secret, user, window, now) # calls) st =
     after_calls self calls (store (verify_totp self token totp_secret user window now st))"

section \<open>A small concrete setting\<close>

text \<open>
  Primitives, a keyring and an envelope small enough to compute with: a step of 30
  seconds, six digits, the code \<open>123456\<close> at counter 1000 as in the specification's
  example scenario, \<open>654321\<close> at counter 1001, \<open>111222\<close> at counter 1002, and
  \<open>000000\<close> at every other counter.
  The cipher prefixes the secret with the key and checks the prefix on decryption.
\<close>

definition demo_primitives :: primitives where
  "demo_primitives =
     \<lparr>code_at = (\<lambda>secret c.
         if c = 1000 then ''123456'' else if c = 1001 then ''654321''
         else if c = 1002 then ''111222'' else ''000000''),
      cipher_encrypt = (\<lambda>k s. k @ s),
      cipher_decrypt = (\<lambda>k c.
         if take (length k) c = k then Some (drop (length k) c) else None)\<rparr>"

definition demo_params :: params where
  "demo_params =
     \<lparr>p_issuer = ''app'', p_digest = ''sha1'', p_digits = 6, p_step_duration = 30\<rparr>"

definition demo_keyring :: keyring where
  "demo_keyring = \<lparr>kr_keys = [''1'' \<mapsto> ''k''], kr_current = ''1''\<rparr>"

definition demo_envelope :: envelope where
  "demo_envelope =
     \<lparr>env_key_id = ''1'', env_ciphertext = ''kS'', env_params = demo_params\<rparr>"

definition demo_TOTP :: "(envelope, totp_instance, TotpMatch) TOTP" where
  "demo_TOTP = spec_TOTP demo_primitives demo_keyring demo_params"

text \<open>An object of the class itself over this factory, with users named by strings.\<close>

definition demo_Totp ::
  "(envelope, totp_instance, TotpMatch, string \<rightharpoonup> int, string) Totp" where
  "demo_Totp = plain demo_TOTP"

text \<open>
  An object of a subclass whose store cannot be written: \<^verbatim>\<open>set_last_counter\<close> raises
  and leaves the store as it was.
\<close>

definition demo_cache_down ::
  "(envelope, totp_instance, TotpMatch, string \<rightharpoonup> int, string) Totp" where
  "demo_cache_down =
     \<lparr>totp = demo_TOTP,
      self_get_last_counter = cache_get_last_counter,
      self_set_last_counter = (\<lambda>user tmatch st. (Some (ValueError ''cache down''), st))\<rparr>"

section \<open>Facts about the model of the library\<close>

lemma spec_verify_Inr:
  "spec_verify P kr tok env w lc now = Inr m \<Longrightarrow>
   matching_counter P kr tok env w now = Inr (Some (tm_counter m)) \<and>
   admissible (tm_counter m) lc \<and> tm_time m = now"
  by (auto simp: spec_verify_def split: sum.splits option.splits if_splits)

lemma spec_verify_decrypt_fails:
  "decrypt P env kr = Inl e \<Longrightarrow>
   spec_verify P kr tok env w lc now = Inl e \<and> (e = UnknownKeyError \<or> e = DecryptError)"
  by (auto simp: spec_verify_def matching_counter_def decrypt_def split: option.splits)

lemma set_candidates: "set (candidates c w) = {c - int w .. c + int w}"
  by (induction w) auto

lemma find_matching_counter_None:
  "(find_matching_counter P secret tok c w = None) =
     (\<forall>x \<in> {c - int w .. c + int w}. code_at P secret x \<noteq> tok)"
  by (auto simp: find_matching_counter_def find_None_iff set_candidates)

lemma find_matching_counter_Some:
  "find_matching_counter P secret tok c w = Some x \<Longrightarrow>
     x \<in> {c - int w .. c + int w} \<and> code_at P secret x = tok"
  unfolding find_matching_counter_def find_Some_iff
  by (metis nth_mem set_candidates)

lemma matching_counter_decrypted:
  "decrypt P env kr = Inr t \<Longrightarrow> p_step_duration (i_params t) \<noteq> 0 \<Longrightarrow>
   matching_counter P kr tok env window_seconds now =
     Inr (find_matching_counter P (i_secret t) tok (now div p_step_duration (i_params t))
            (nat (max 0 (window_seconds div p_step_duration (i_params t)))))"
  by (simp add: matching_counter_def floordiv_def)

lemma matching_counter_step:
  "matching_counter P kr tok env window_seconds now = Inr r \<Longrightarrow> decrypt P env kr = Inr t \<Longrightarrow>
   p_step_duration (i_params t) \<noteq> 0"
  by (auto simp: matching_counter_def floordiv_def split: if_splits)

text \<open>
  With the envelope decrypted and no counter of the window barred by the last counter,
  the library's \<^verbatim>\<open>verify\<close> succeeds exactly when some counter of the whole window has
  the submitted code, and otherwise fails for want of a match.
\<close>

lemma spec_verify_window:
  assumes dec: "decrypt P env kr = Inr t"
    and step: "p_step_duration (i_params t) \<noteq> 0"
    and center: "center = now div p_step_duration (i_params t)"
    and w: "w = max 0 (window_seconds div p_step_duration (i_params t))"
    and fresh: "case last_counter of None \<Rightarrow> True | Some n \<Rightarrow> n < center - w"
  shows "(\<exists>m. spec_verify P kr tok env window_seconds last_counter now = Inr m) =
           (\<exists>c \<in> {center - w .. center + w}. code_at P (i_secret t) c = tok)"
    and "(spec_verify P kr tok env window_seconds last_counter now = Inl (TokenError NoMatch)) =
           (\<forall>c \<in> {center - w .. center + w}. code_at P (i_secret t) c \<noteq> tok)"
    and "(\<exists>m. spec_verify P kr tok env window_seconds last_counter now = Inr m) \<or>
           spec_verify P kr tok env window_seconds last_counter now = Inl (TokenError NoMatch)"
proof -
  have w0: "0 \<le> w" using w by simp
  let ?find = "find_matching_counter P (i_secret t) tok center (nat w)"
  have mc: "matching_counter P kr tok env window_seconds now = Inr ?find"
    using matching_counter_decrypted [OF dec step] center w by simp
  have none: "(?find = None) = (\<forall>c \<in> {center - w .. center + w}. code_at P (i_secret t) c \<noteq> tok)"
    using w0 by (simp add: find_matching_counter_None)
  have adm: "admissible x last_counter" if "?find = Some x" for x
  proof -
    from find_matching_counter_Some [OF that] w0 have "center - w \<le> x" by simp
    with fresh show ?thesis by (auto simp: admissible_def split: option.splits)
  qed
  show "(\<exists>m. spec_verify P kr tok env window_seconds last_counter now = Inr m) =
           (\<exists>c \<in> {center - w .. center + w}. code_at P (i_secret t) c = tok)"
    using mc none adm by (cases ?find) (auto simp: spec_verify_def)
  show "(spec_verify P kr tok env window_seconds last_counter now = Inl (TokenError NoMatch)) =
           (\<forall>c \<in> {center - w .. center + w}. code_at P (i_secret t) c \<noteq> tok)"
    using mc none adm by (cases ?find) (auto simp: spec_verify_def)
  show "(\<exists>m. spec_verify P kr tok env window_seconds last_counter now = Inr m) \<or>
           spec_verify P kr tok env window_seconds last_counter now = Inl (TokenError NoMatch)"
    using mc adm by (cases ?find) (auto simp: spec_verify_def)
qed

subsection \<open>The stored counter of a user never goes down\<close>

lemma store_cached_step:
  "store (verify_totp (cached (spec_TOTP P kr prm)) tok env u w now st) =
     (case spec_verify P kr tok env (case w of None \<Rightarrow> 0 | Some x \<Rightarrow> x) (st u) now of
        Inr m \<Rightarrow> st(u \<mapsto> tm_counter m) | Inl e \<Rightarrow> st)"
  by (simp add: verify_totp_def except_TokenError_def cached_def spec_TOTP_def
      cache_get_last_counter_def cache_set_last_counter_def split: sum.splits exn.splits)

lemma cached_step_mono:
  assumes "st v = Some k"
  shows "\<exists>k'. store (verify_totp (cached (spec_TOTP P kr prm)) tok env u w now st) v = Some k'
           \<and> k \<le> k'"
proof (cases "spec_verify P kr tok env (case w of None \<Rightarrow> 0 | Some x \<Rightarrow> x) (st u) now")
  case (Inl e)
  with assms show ?thesis by (simp add: store_cached_step)
next
  case (Inr m)
  show ?thesis
  proof (cases "u = v")
    case True
    from spec_verify_Inr [OF Inr] have "admissible (tm_counter m) (st u)" by simp
    with True assms have "k < tm_counter m" by (simp add: admissible_def)
    with True Inr show ?thesis by (simp add: store_cached_step)
  next
    case False
    with Inr assms show ?thesis by (simp add: store_cached_step)
  qed
qed

lemma after_calls_mono:
  "st v = Some k \<Longrightarrow>
   \<exists>k'. after_calls (cached (spec_TOTP P kr prm)) calls st v = Some k' \<and> k \<le> k'"
proof (induction calls arbitrary: st k)
  case Nil
  then show ?case by simp
next
  case (Cons call calls)
  obtain tok env u w now where call: "call = (tok, env, u, w, now)"
    by (cases call) auto
  let ?st1 = "store (verify_totp (cached (spec_TOTP P kr prm)) tok env u w now st)"
  from cached_step_mono [where st = st and v = v and k = k and P = P and kr = kr
      and prm = prm and tok = tok and env = env and u = u and w = w and now = now] Cons.prems
  obtain k1 where k1: "?st1 v = Some k1" and le1: "k \<le> k1" by blast
  from Cons.IH [where st = ?st1 and k = k1] k1
  obtain k' where "after_calls (cached (spec_TOTP P kr prm)) calls ?st1 v = Some k'"
    and "k1 \<le> k'" by blast
  with le1 call show ?case by auto
qed

subsection \<open>Codes of different counters coincide\<close>

lemma codes_collide:
  assumes "finite (range (code_at P secret))"
  shows "\<exists>c1 c2. c1 < c2 \<and> code_at P secret c1 = code_at P secret c2"
proof -
  have "\<not> inj (code_at P secret)"
    using assms finite_imageD infinite_UNIV_int by blast
  then obtain a b where ab: "a \<noteq> b" "code_at P secret a = code_at P secret b"
    by (auto simp: inj_on_def)
  show ?thesis
  proof (cases "a < b")
    case True
    with ab show ?thesis by blast
  next
    case False
    with ab have "b < a" "code_at P secret b = code_at P secret a" by simp_all
    then show ?thesis by blast
  qed
qed

subsection \<open>Values in the concrete setting\<close>

lemmas demo_defs = demo_TOTP_def demo_primitives_def demo_params_def demo_keyring_def
  demo_envelope_def

lemmas spec_defs = spec_TOTP_def spec_verify_def matching_counter_def decrypt_def
  floordiv_def find_matching_counter_def admissible_def

lemmas cached_defs = verify_totp_def except_TokenError_def cached_def
  cache_get_last_counter_def cache_set_last_counter_def

lemmas plain_defs = verify_totp_def except_TokenError_def demo_Totp_def plain_def
  get_last_counter_def set_last_counter_def

lemma demo_decrypt:
  "decrypt demo_primitives demo_envelope demo_keyring =
     Inr \<lparr>i_secret = ''S'', i_params = demo_params\<rparr>"
  by (simp add: decrypt_def demo_defs)

lemma demo_verify_fresh:
  "TOTP_verify demo_TOTP ''123456'' demo_envelope 0 None 30000 =
     Inr \<lparr>tm_counter = 1000, tm_time = 30000\<rparr>"
  by (simp add: demo_defs spec_defs)

lemma demo_verify_fresh_later:
  "TOTP_verify demo_TOTP ''123456'' demo_envelope 0 None 30010 =
     Inr \<lparr>tm_counter = 1000, tm_time = 30010\<rparr>"
  by (simp add: demo_defs spec_defs)

lemma demo_verify_wrong:
  "TOTP_verify demo_TOTP ''111111'' demo_envelope 0 lc 30000 = Inl (TokenError NoMatch)"
  by (simp add: demo_defs spec_defs)

lemma demo_verify_replay:
  "TOTP_verify demo_TOTP ''123456'' demo_envelope 0 (Some 1000) 30010 =
     Inl (TokenError Replay)"
  by (simp add: demo_defs spec_defs)


lemma demo_verify_other_user:
  "TOTP_verify demo_TOTP ''000000'' demo_envelope 0 None 30090 =
     Inr \<lparr>tm_counter = 1003, tm_time = 30090\<rparr>"
  by (simp add: demo_defs spec_defs)

lemma demo_matching_window:
  "matching_counter demo_primitives demo_keyring ''123456'' demo_envelope 30 30040 =
     Inr (Some 1000)"
  by (simp add: demo_defs spec_defs)


lemma demo_unknown_key:
  "decrypt demo_primitives (demo_envelope\<lparr>env_key_id := ''9''\<rparr>) demo_keyring
     = Inl UnknownKeyError"
  by (simp add: decrypt_def demo_defs)

lemma demo_tampered:
  "decrypt demo_primitives (demo_envelope\<lparr>env_ciphertext := ''xS''\<rparr>) demo_keyring
     = Inl DecryptError"
  by (simp add: decrypt_def demo_defs)

lemma demo_first_call:
  "verify_totp (cached demo_TOTP) ''123456'' demo_envelope ''alice'' None 30000 Map.empty =
     \<lparr>returned = Inr True, store = [''alice'' \<mapsto> 1000],
      writes = [(''alice'', \<lparr>tm_counter = 1000, tm_time = 30000\<rparr>)]\<rparr>"
  by (simp add: cached_defs demo_verify_fresh)

lemma demo_first_call_later:
  "verify_totp (cached demo_TOTP) ''123456'' demo_envelope ''alice'' None 30010 Map.empty =
     \<lparr>returned = Inr True, store = [''alice'' \<mapsto> 1000],
      writes = [(''alice'', \<lparr>tm_counter = 1000, tm_time = 30010\<rparr>)]\<rparr>"
  by (simp add: cached_defs demo_verify_fresh_later)

lemma demo_other_user_call:
  "verify_totp (cached demo_TOTP) ''000000'' demo_envelope ''bob'' None 30090
      [''alice'' \<mapsto> 1000] =
     \<lparr>returned = Inr True, store = [''alice'' \<mapsto> 1000, ''bob'' \<mapsto> 1003],
      writes = [(''bob'', \<lparr>tm_counter = 1003, tm_time = 30090\<rparr>)]\<rparr>"
  by (simp add: cached_defs demo_verify_other_user)

lemma demo_wrong_call:
  "verify_totp (cached demo_TOTP) ''111111'' demo_envelope ''alice'' None 30000 st =
     \<lparr>returned = Inr False, store = st, writes = []\<rparr>"
  by (simp add: cached_defs demo_verify_wrong)

lemma demo_plain_call:
  "verify_totp demo_Totp ''123456'' demo_envelope ''alice'' None 30000 st =
     \<lparr>returned = Inr True, store = st,
      writes = [(''alice'', \<lparr>tm_counter = 1000, tm_time = 30000\<rparr>)]\<rparr>"
  by (simp add: plain_defs demo_verify_fresh)

lemma demo_cache_down_call:
  "verify_totp demo_cache_down ''123456'' demo_envelope ''alice'' None 30000 Map.empty =
     \<lparr>returned = Inl (ValueError ''cache down''), store = Map.empty,
      writes = [(''alice'', \<lparr>tm_counter = 1000, tm_time = 30000\<rparr>)]\<rparr>"
  by (simp add: verify_totp_def except_TokenError_def demo_cache_down_def
      cache_get_last_counter_def demo_verify_fresh)

lemma demo_Totp_lib:
  "totp demo_Totp = spec_TOTP demo_primitives demo_keyring demo_params"
  by (simp add: demo_Totp_def plain_def demo_TOTP_def)



section \<open>Properties of the module\<close>

subsection \<open>Replay protection\<close>

text \<open>
  C1. Over the library of the specification and a collaborator that stores the counter
  of the match it is given and returns what is stored: once \<^verbatim>\<open>verify_totp\<close> has
  returned true for a user with matched counter \<open>tm_counter m\<close>, then after any further
  calls of \<^verbatim>\<open>verify_totp\<close> (for any users), a call for that user with a code whose
  matching counter \<open>c\<close> is at most \<open>tm_counter m\<close> returns false and changes nothing,
  although the counter lies inside the window searched.
\<close>

theorem accepted_counter_never_accepted_again:
  assumes first:
      "returned (verify_totp (cached (spec_TOTP P kr prm)) token1 env1 user window1 now1 st)
         = Inr True"
    and n: "writes (verify_totp (cached (spec_TOTP P kr prm)) token1 env1 user window1 now1 st)
         = [(user, m)]"
    and later: "st' = after_calls (cached (spec_TOTP P kr prm)) calls
         (store (verify_totp (cached (spec_TOTP P kr prm)) token1 env1 user window1 now1 st))"
    and c: "matching_counter P kr token2 env2 (case window2 of None \<Rightarrow> 0 | Some w \<Rightarrow> w) now2
         = Inr (Some c)"
    and le: "c \<le> tm_counter m"
  shows "verify_totp (cached (spec_TOTP P kr prm)) token2 env2 user window2 now2 st' =
           \<lparr>returned = Inr False, store = st', writes = []\<rparr>"
proof -
  let ?T = "cached (spec_TOTP P kr prm)"
  let ?r = "verify_totp ?T token1 env1 user window1 now1 st"
  from first n have "store ?r = st(user \<mapsto> tm_counter m)"
    by (auto simp: cached_defs split: sum.splits exn.splits)
  then have stored: "store ?r user = Some (tm_counter m)"
    by simp
  from after_calls_mono [where st = "store ?r" and v = user and k = "tm_counter m"
      and P = P and kr = kr and prm = prm and calls = calls] stored later
  obtain k' where k': "st' user = Some k'" and "tm_counter m \<le> k'" by blast
  with le have "\<not> admissible c (st' user)" by (simp add: admissible_def)
  with c have "spec_verify P kr token2 env2 (case window2 of None \<Rightarrow> 0 | Some w \<Rightarrow> w)
      (st' user) now2 = Inl (TokenError Replay)"
    by (simp add: spec_verify_def)
  then show ?thesis
    by (simp add: cached_defs spec_TOTP_def)
qed

text \<open>
  The scenario of the specification: \<open>123456\<close> is accepted at counter 1000; another
  user verifies in between; the same code, submitted again one step later with a
  window of 30 seconds, still matches counter 1000 and is refused.
\<close>

theorem accepted_counter_never_accepted_again_witness:
  "returned (verify_totp (cached demo_TOTP) ''123456'' demo_envelope ''alice'' None 30000
      Map.empty) = Inr True \<and>
   writes (verify_totp (cached demo_TOTP) ''123456'' demo_envelope ''alice'' None 30000
      Map.empty) = [(''alice'', \<lparr>tm_counter = 1000, tm_time = 30000\<rparr>)] \<and>
   after_calls (cached demo_TOTP) [(''000000'', demo_envelope, ''bob'', None, 30090)]
      (store (verify_totp (cached demo_TOTP) ''123456'' demo_envelope ''alice'' None 30000
         Map.empty)) = [''alice'' \<mapsto> 1000, ''bob'' \<mapsto> 1003] \<and>
   matching_counter demo_primitives demo_keyring ''123456'' demo_envelope 30 30040
      = Inr (Some 1000) \<and>
   verify_totp (cached demo_TOTP) ''123456'' demo_envelope ''alice'' (Some 30) 30040
      [''alice'' \<mapsto> 1000, ''bob'' \<mapsto> 1003] =
     \<lparr>returned = Inr False, store = [''alice'' \<mapsto> 1000, ''bob'' \<mapsto> 1003], writes = []\<rparr>"
proof -
  let ?first = "verify_totp (cached demo_TOTP) ''123456'' demo_envelope ''alice'' None 30000
      Map.empty"
  have later: "[''alice'' \<mapsto> 1000, ''bob'' \<mapsto> 1003] =
      after_calls (cached demo_TOTP) [(''000000'', demo_envelope, ''bob'', None, 30090)]
        (store ?first)"
    by (simp add: demo_first_call demo_other_user_call)
  have r: "returned ?first = Inr True"
    and w: "writes ?first = [(''alice'', \<lparr>tm_counter = 1000, tm_time = 30000\<rparr>)]"
    by (simp_all add: demo_first_call)
  have c: "matching_counter demo_primitives demo_keyring ''123456'' demo_envelope
      (case Some 30 of None \<Rightarrow> 0 | Some w \<Rightarrow> w) 30040 = Inr (Some 1000)"
    by (simp add: demo_matching_window)
  have le: "(1000::int) \<le> tm_counter \<lparr>tm_counter = 1000, tm_time = 30000\<rparr>"
    by simp
  note accepted_counter_never_accepted_again
    [OF r [unfolded demo_TOTP_def] w [unfolded demo_TOTP_def] later [unfolded demo_TOTP_def] c le]
  with r w later [symmetric] demo_matching_window show ?thesis
    by (simp add: demo_TOTP_def)
qed

subsection \<open>What is written, and when\<close>

text \<open>
  C2, as amended. On every successful verification \<^verbatim>\<open>get_last_counter\<close> has returned,
  the library's \<^verbatim>\<open>verify\<close> has returned a \<^verbatim>\<open>TotpMatch\<close> for the last counter read, and
  the module has called \<^verbatim>\<open>set_last_counter\<close> once, with the user and that object,
  unchanged; the call returned, and the store after the verification is the one it
  left. The object carries the matched counter; taking the integer out of it is left
  to the method.
\<close>

theorem verify_totp_hands_over_match:
  "returned (verify_totp self token totp_secret user window now st) = Inr True \<Longrightarrow>
   \<exists>last_counter tmatch.
     self_get_last_counter self st user = Inr last_counter \<and>
     TOTP_verify (totp self) token totp_secret (case window of None \<Rightarrow> 0 | Some w \<Rightarrow> w)
       last_counter now = Inr tmatch \<and>
     writes (verify_totp self token totp_secret user window now st) = [(user, tmatch)] \<and>
     self_set_last_counter self user tmatch st =
       (None, store (verify_totp self token totp_secret user window now st))"
  by (auto simp: verify_totp_def except_TokenError_def
      split: sum.splits exn.splits prod.splits option.splits)

theorem verify_totp_hands_over_match_witness:
  "returned (verify_totp (cached demo_TOTP) ''123456'' demo_envelope ''alice'' None 30000
      Map.empty) = Inr True \<and>
   (\<exists>last_counter tmatch.
     cache_get_last_counter Map.empty ''alice'' = Inr last_counter \<and>
     TOTP_verify demo_TOTP ''123456'' demo_envelope 0 last_counter 30000 = Inr tmatch \<and>
     writes (verify_totp (cached demo_TOTP) ''123456'' demo_envelope ''alice'' None 30000
       Map.empty) = [(''alice'', tmatch)] \<and>
     cache_set_last_counter ''alice'' tmatch Map.empty =
       (None, store (verify_totp (cached demo_TOTP) ''123456'' demo_envelope ''alice'' None
          30000 Map.empty)))"
proof -
  have r: "returned (verify_totp (cached demo_TOTP) ''123456'' demo_envelope ''alice'' None
      30000 Map.empty) = Inr True"
    by (simp add: demo_first_call)
  from verify_totp_hands_over_match [OF r] r show ?thesis
    by (simp add: cached_def)
qed

text \<open>
  C2 as stated says that the argument is the matched counter as an integer. It is
  not: two verifications that match the same counter 1000, ten seconds apart, hand
  \<^verbatim>\<open>set_last_counter\<close> two different arguments, each a \<^verbatim>\<open>TotpMatch\<close> with the counter
  and the time of the match.
\<close>

theorem set_last_counter_argument_counterexample:
  "writes (verify_totp (cached demo_TOTP) ''123456'' demo_envelope ''alice'' None 30000
      Map.empty) = [(''alice'', \<lparr>tm_counter = 1000, tm_time = 30000\<rparr>)] \<and>
   writes (verify_totp (cached demo_TOTP) ''123456'' demo_envelope ''alice'' None 30010
      Map.empty) = [(''alice'', \<lparr>tm_counter = 1000, tm_time = 30010\<rparr>)] \<and>
   writes (verify_totp (cached demo_TOTP) ''123456'' demo_envelope ''alice'' None 30000
      Map.empty) \<noteq>
   writes (verify_totp (cached demo_TOTP) ''123456'' demo_envelope ''alice'' None 30010
      Map.empty)"
  by (simp add: demo_first_call demo_first_call_later)

text \<open>
  C3, as amended. In every call of \<^verbatim>\<open>verify_totp\<close>, whatever the library and the two
  methods do: \<^verbatim>\<open>set_last_counter\<close> is called at most once; the store after the call is
  the store before it with the calls of \<^verbatim>\<open>set_last_counter\<close> made applied to it, so
  it is the store before when none was made; and none is made unless
  \<^verbatim>\<open>get_last_counter\<close> returned and the library's \<^verbatim>\<open>verify\<close> returned a match. So a
  call that fails for want of a match, or as a replay, writes nothing. When the call
  of \<^verbatim>\<open>set_last_counter\<close>, if one is made, returns: \<^verbatim>\<open>set_last_counter\<close> is called
  exactly once if and only if \<^verbatim>\<open>verify_totp\<close> returns true, the store is then the one
  that call left, and when \<^verbatim>\<open>verify_totp\<close> does not return true nothing is written and
  the store is unchanged.
\<close>

theorem verify_totp_writes_once:
  "(let r = verify_totp self token totp_secret user window now st in
    length (writes r) \<le> 1 \<and>
    store r = foldl (\<lambda>s (u, m). snd (self_set_last_counter self u m s)) st (writes r) \<and>
    ((\<forall>last_counter tmatch.
        self_get_last_counter self st user = Inr last_counter \<longrightarrow>
        TOTP_verify (totp self) token totp_secret (case window of None \<Rightarrow> 0 | Some w \<Rightarrow> w)
          last_counter now \<noteq> Inr tmatch) \<longrightarrow>
     writes r = [] \<and> store r = st \<and> returned r \<noteq> Inr True) \<and>
    ((\<forall>tmatch. writes r = [(user, tmatch)] \<longrightarrow>
        fst (self_set_last_counter self user tmatch st) = None) \<longrightarrow>
     ((length (writes r) = 1) = (returned r = Inr True)) \<and>
     (returned r \<noteq> Inr True \<longrightarrow> writes r = [] \<and> store r = st) \<and>
     (returned r = Inr True \<longrightarrow>
        (\<exists>tmatch. writes r = [(user, tmatch)] \<and>
           self_set_last_counter self user tmatch st = (None, store r)))))"
  by (auto simp: Let_def verify_totp_def except_TokenError_def
      split: sum.splits exn.splits prod.splits option.splits)

theorem verify_totp_writes_once_witness:
  "returned (verify_totp (cached demo_TOTP) ''111111'' demo_envelope ''alice'' None 30000
      [''alice'' \<mapsto> 999]) \<noteq> Inr True \<and>
   writes (verify_totp (cached demo_TOTP) ''111111'' demo_envelope ''alice'' None 30000
      [''alice'' \<mapsto> 999]) = [] \<and>
   store (verify_totp (cached demo_TOTP) ''111111'' demo_envelope ''alice'' None 30000
      [''alice'' \<mapsto> 999]) = [''alice'' \<mapsto> 999] \<and>
   returned (verify_totp (cached demo_TOTP) ''123456'' demo_envelope ''alice'' None 30000
      Map.empty) = Inr True \<and>
   length (writes (verify_totp (cached demo_TOTP) ''123456'' demo_envelope ''alice'' None
      30000 Map.empty)) = 1 \<and>
   store (verify_totp (cached demo_TOTP) ''123456'' demo_envelope ''alice'' None
      30000 Map.empty) = [''alice'' \<mapsto> 1000]"
proof -
  have returns: "\<And>tmatch st. fst (self_set_last_counter (cached demo_TOTP) ''alice'' tmatch st)
      = None"
    by (simp add: cached_def cache_set_last_counter_def)
  have f: "returned (verify_totp (cached demo_TOTP) ''111111'' demo_envelope ''alice'' None
      30000 [''alice'' \<mapsto> 999]) \<noteq> Inr True"
    by (simp add: demo_wrong_call)
  have t: "returned (verify_totp (cached demo_TOTP) ''123456'' demo_envelope ''alice'' None
      30000 Map.empty) = Inr True"
    by (simp add: demo_first_call)
  have s: "store (verify_totp (cached demo_TOTP) ''123456'' demo_envelope ''alice'' None
      30000 Map.empty) = [''alice'' \<mapsto> 1000]"
    by (simp add: demo_first_call)
  from f t s returns
    verify_totp_writes_once [unfolded Let_def, of "cached demo_TOTP" "''111111''"
      demo_envelope "''alice''" None 30000 "[''alice'' \<mapsto> 999]"]
    verify_totp_writes_once [unfolded Let_def, of "cached demo_TOTP" "''123456''"
      demo_envelope "''alice''" None 30000 Map.empty]
  show ?thesis by blast
qed

text \<open>
  C3 as stated holds for every call. It does not hold when \<^verbatim>\<open>set_last_counter\<close> itself
  raises: the call has been made, once, and \<^verbatim>\<open>verify_totp\<close> does not return true
  but raises what the method raised.
\<close>

theorem verify_totp_writes_once_counterexample:
  "length (writes (verify_totp demo_cache_down ''123456'' demo_envelope ''alice'' None 30000
      Map.empty)) = 1 \<and>
   returned (verify_totp demo_cache_down ''123456'' demo_envelope ''alice'' None 30000
      Map.empty) = Inl (ValueError ''cache down'') \<and>
   returned (verify_totp demo_cache_down ''123456'' demo_envelope ''alice'' None 30000
      Map.empty) \<noteq> Inr True"
  by (simp add: demo_cache_down_call)

subsection \<open>Construction\<close>



subsection \<open>Exceptions and the value returned\<close>

text \<open>
  C5. When \<^verbatim>\<open>get_last_counter\<close> has returned and the library's \<^verbatim>\<open>verify\<close> raises an
  exception that is not a \<^verbatim>\<open>TokenError\<close>, as a failure to decrypt the stored secret is
  (\<open>spec_verify_decrypt_fails\<close>: an unknown key identifier or a ciphertext that fails
  its check), \<^verbatim>\<open>verify_totp\<close> raises that exception to its caller and writes nothing.
  It returns false exactly when the library raised a \<^verbatim>\<open>TokenError\<close>, provided the call
  of \<^verbatim>\<open>set_last_counter\<close> after a match, the only other call left, returns.
\<close>

theorem verify_totp_raises_other_errors:
  "(self_get_last_counter self st user = Inr last_counter \<and>
    TOTP_verify (totp self) token totp_secret (case window of None \<Rightarrow> 0 | Some w \<Rightarrow> w)
       last_counter now = Inl e \<and> (\<forall>c. e \<noteq> TokenError c) \<longrightarrow>
      verify_totp self token totp_secret user window now st =
        \<lparr>returned = Inl e, store = st, writes = []\<rparr>) \<and>
   (self_get_last_counter self st user = Inr last_counter \<and>
    (\<forall>tmatch. TOTP_verify (totp self) token totp_secret
         (case window of None \<Rightarrow> 0 | Some w \<Rightarrow> w) last_counter now = Inr tmatch \<longrightarrow>
       fst (self_set_last_counter self user tmatch st) = None) \<longrightarrow>
      (returned (verify_totp self token totp_secret user window now st) = Inr False) =
        (\<exists>c. TOTP_verify (totp self) token totp_secret (case window of None \<Rightarrow> 0 | Some w \<Rightarrow> w)
           last_counter now = Inl (TokenError c)))"
  by (auto simp: verify_totp_def except_TokenError_def
      split: sum.splits exn.splits prod.splits option.splits)

theorem verify_totp_raises_other_errors_witness:
  "decrypt demo_primitives (demo_envelope\<lparr>env_key_id := ''9''\<rparr>) demo_keyring
     = Inl UnknownKeyError \<and>
   verify_totp (cached demo_TOTP) ''123456'' (demo_envelope\<lparr>env_key_id := ''9''\<rparr>) ''alice''
     None 30000 (Map.empty :: string \<rightharpoonup> int) =
       \<lparr>returned = Inl UnknownKeyError, store = Map.empty, writes = []\<rparr> \<and>
   decrypt demo_primitives (demo_envelope\<lparr>env_ciphertext := ''xS''\<rparr>) demo_keyring
     = Inl DecryptError \<and>
   verify_totp (cached demo_TOTP) ''123456'' (demo_envelope\<lparr>env_ciphertext := ''xS''\<rparr>)
     ''alice'' None 30000 (Map.empty :: string \<rightharpoonup> int) =
       \<lparr>returned = Inl DecryptError, store = Map.empty, writes = []\<rparr>"
proof -
  have g: "self_get_last_counter (cached demo_TOTP) (Map.empty :: string \<rightharpoonup> int) ''alice''
      = Inr None"
    by (simp add: cached_def cache_get_last_counter_def)
  have u: "TOTP_verify (totp (cached demo_TOTP)) ''123456''
      (demo_envelope\<lparr>env_key_id := ''9''\<rparr>) 0 None 30000 = Inl UnknownKeyError"
    using spec_verify_decrypt_fails [OF demo_unknown_key]
    by (simp add: cached_def demo_TOTP_def spec_TOTP_def)
  have d: "TOTP_verify (totp (cached demo_TOTP)) ''123456''
      (demo_envelope\<lparr>env_ciphertext := ''xS''\<rparr>) 0 None 30000 = Inl DecryptError"
    using spec_verify_decrypt_fails [OF demo_tampered]
    by (simp add: cached_def demo_TOTP_def spec_TOTP_def)
  have "verify_totp (cached demo_TOTP) ''123456'' (demo_envelope\<lparr>env_key_id := ''9''\<rparr>)
      ''alice'' None 30000 (Map.empty :: string \<rightharpoonup> int) =
        \<lparr>returned = Inl UnknownKeyError, store = Map.empty, writes = []\<rparr>"
    by (rule verify_totp_raises_other_errors [THEN conjunct1, rule_format,
          where last_counter = None]) (simp add: g u)
  moreover
  have "verify_totp (cached demo_TOTP) ''123456'' (demo_envelope\<lparr>env_ciphertext := ''xS''\<rparr>)
      ''alice'' None 30000 (Map.empty :: string \<rightharpoonup> int) =
        \<lparr>returned = Inl DecryptError, store = Map.empty, writes = []\<rparr>"
    by (rule verify_totp_raises_other_errors [THEN conjunct1, rule_format,
          where last_counter = None]) (simp add: g d)
  ultimately show ?thesis
    using demo_unknown_key demo_tampered by simp
qed

text \<open>
  C6. A call that fails because no counter of the window matches and a call that fails
  because the matched counter is refused as a replay both return the plain value false,
  write nothing and leave the store as it was: what the caller gets back is the same.
\<close>

theorem verify_totp_failures_look_alike:
  assumes "self_get_last_counter self st1 user1 = Inr last_counter1"
    and "TOTP_verify (totp self) token1 secret1 (case window1 of None \<Rightarrow> 0 | Some w \<Rightarrow> w)
       last_counter1 now1 = Inl (TokenError NoMatch)"
    and "self_get_last_counter self st2 user2 = Inr last_counter2"
    and "TOTP_verify (totp self) token2 secret2 (case window2 of None \<Rightarrow> 0 | Some w \<Rightarrow> w)
       last_counter2 now2 = Inl (TokenError Replay)"
  shows "verify_totp self token1 secret1 user1 window1 now1 st1 =
           \<lparr>returned = Inr False, store = st1, writes = []\<rparr> \<and>
         verify_totp self token2 secret2 user2 window2 now2 st2 =
           \<lparr>returned = Inr False, store = st2, writes = []\<rparr> \<and>
         returned (verify_totp self token1 secret1 user1 window1 now1 st1) =
           returned (verify_totp self token2 secret2 user2 window2 now2 st2)"
  using assms by (simp add: verify_totp_def except_TokenError_def)

theorem verify_totp_failures_look_alike_witness:
  "TOTP_verify demo_TOTP ''111111'' demo_envelope 0 (Some 1000) 30000
     = Inl (TokenError NoMatch) \<and>
   TOTP_verify demo_TOTP ''123456'' demo_envelope 0 (Some 1000) 30010
     = Inl (TokenError Replay) \<and>
   verify_totp (cached demo_TOTP) ''111111'' demo_envelope ''alice'' None 30000
     [''alice'' \<mapsto> 1000] =
       \<lparr>returned = Inr False, store = [''alice'' \<mapsto> 1000], writes = []\<rparr> \<and>
   verify_totp (cached demo_TOTP) ''123456'' demo_envelope ''alice'' None 30010
     [''alice'' \<mapsto> 1000] =
       \<lparr>returned = Inr False, store = [''alice'' \<mapsto> 1000], writes = []\<rparr>"
proof -
  have g: "self_get_last_counter (cached demo_TOTP) [''alice'' \<mapsto> 1000] ''alice''
      = Inr (Some 1000)"
    by (simp add: cached_def cache_get_last_counter_def)
  have a: "TOTP_verify (totp (cached demo_TOTP)) ''111111'' demo_envelope
      (case None of None \<Rightarrow> 0 | Some w \<Rightarrow> w) (Some 1000) 30000 = Inl (TokenError NoMatch)"
    by (simp add: cached_def demo_verify_wrong)
  have b: "TOTP_verify (totp (cached demo_TOTP)) ''123456'' demo_envelope
      (case None of None \<Rightarrow> 0 | Some w \<Rightarrow> w) (Some 1000) 30010 = Inl (TokenError Replay)"
    by (simp add: cached_def demo_verify_replay)
  from verify_totp_failures_look_alike [OF g a g b] demo_verify_wrong demo_verify_replay
  show ?thesis by simp
qed

subsection \<open>The methods of the class itself\<close>

text \<open>
  C7. When the two methods are not overridden, \<^verbatim>\<open>get_last_counter\<close> returns \<open>None\<close>
  for every user and every store and \<^verbatim>\<open>set_last_counter\<close> leaves the store as it is,
  so every counter is admissible. For every library, \<^verbatim>\<open>verify_totp\<close> then hands the
  library no last counter, whatever was verified before, returns true exactly when the
  library finds a match, and leaves the store unchanged. Over the library of the
  specification: a code that has verified verifies again on any later submission for
  which its counter still lies in the window searched; the second submission returns
  true, it is not refused as a replay.
\<close>

theorem default_accessors_disable_replay_protection:
  "get_last_counter st user = Inr None \<and>
   set_last_counter user tmatch st = (None, st) \<and>
   admissible c None \<and>
   verify_totp (plain factory) token totp_secret user window now st =
     (case TOTP_verify factory token totp_secret (case window of None \<Rightarrow> 0 | Some w \<Rightarrow> w)
             None now of
        Inr m \<Rightarrow> \<lparr>returned = Inr True, store = st, writes = [(user, m)]\<rparr>
      | Inl e \<Rightarrow> except_TokenError e st []) \<and>
   (returned (verify_totp (plain (spec_TOTP P kr prm)) token1 env user1 window1 now1 st1)
      = Inr True \<and>
    writes (verify_totp (plain (spec_TOTP P kr prm)) token1 env user1 window1 now1 st1)
      = [(user1, m1)] \<and>
    decrypt P env kr = Inr t \<and>
    now2 div p_step_duration (i_params t)
      - max 0 ((case window2 of None \<Rightarrow> 0 | Some w \<Rightarrow> w) div p_step_duration (i_params t))
      \<le> tm_counter m1 \<and>
    tm_counter m1 \<le> now2 div p_step_duration (i_params t)
      + max 0 ((case window2 of None \<Rightarrow> 0 | Some w \<Rightarrow> w) div p_step_duration (i_params t)) \<longrightarrow>
    returned (verify_totp (plain (spec_TOTP P kr prm)) token1 env user1 window2 now2
      (store (verify_totp (plain (spec_TOTP P kr prm)) token1 env user1 window1 now1 st1)))
      = Inr True)"
proof (intro conjI impI)
  show "get_last_counter st user = Inr None"
    by (simp add: get_last_counter_def)
  show "set_last_counter user tmatch st = (None, st)"
    by (simp add: set_last_counter_def)
  show "admissible c None"
    by (simp add: admissible_def)
  show "verify_totp (plain factory) token totp_secret user window now st =
     (case TOTP_verify factory token totp_secret (case window of None \<Rightarrow> 0 | Some w \<Rightarrow> w)
             None now of
        Inr m \<Rightarrow> \<lparr>returned = Inr True, store = st, writes = [(user, m)]\<rparr>
      | Inl e \<Rightarrow> except_TokenError e st [])"
    by (simp add: verify_totp_def plain_def get_last_counter_def set_last_counter_def
        split: sum.splits)
next
  let ?T = "plain (spec_TOTP P kr prm)"
  let ?s = "p_step_duration (i_params t)"
  let ?w1 = "case window1 of None \<Rightarrow> 0 | Some w \<Rightarrow> w"
  let ?w2 = "case window2 of None \<Rightarrow> 0 | Some w \<Rightarrow> w"
  assume "returned (verify_totp ?T token1 env user1 window1 now1 st1) = Inr True \<and>
    writes (verify_totp ?T token1 env user1 window1 now1 st1) = [(user1, m1)] \<and>
    decrypt P env kr = Inr t \<and>
    now2 div ?s - max 0 (?w2 div ?s) \<le> tm_counter m1 \<and>
    tm_counter m1 \<le> now2 div ?s + max 0 (?w2 div ?s)"
  then have first: "returned (verify_totp ?T token1 env user1 window1 now1 st1) = Inr True"
    and wr: "writes (verify_totp ?T token1 env user1 window1 now1 st1) = [(user1, m1)]"
    and dec: "decrypt P env kr = Inr t"
    and lo: "now2 div ?s - max 0 (?w2 div ?s) \<le> tm_counter m1"
    and hi: "tm_counter m1 \<le> now2 div ?s + max 0 (?w2 div ?s)"
    by simp_all
  from first wr have v1: "spec_verify P kr token1 env ?w1 None now1 = Inr m1"
    by (auto simp: verify_totp_def except_TokenError_def plain_def spec_TOTP_def
        get_last_counter_def set_last_counter_def split: sum.splits exn.splits)
  from spec_verify_Inr [OF v1]
  have mc1: "matching_counter P kr token1 env ?w1 now1 = Inr (Some (tm_counter m1))"
    by simp
  from matching_counter_step [OF mc1 dec] have step: "?s \<noteq> 0" .
  from mc1 matching_counter_decrypted [OF dec step, of token1 ?w1 now1]
  have "find_matching_counter P (i_secret t) token1 (now1 div ?s) (nat (max 0 (?w1 div ?s)))
      = Some (tm_counter m1)"
    by simp
  from find_matching_counter_Some [OF this]
  have code: "code_at P (i_secret t) (tm_counter m1) = token1"
    by simp
  from lo hi code
  have "\<exists>c \<in> {now2 div ?s - max 0 (?w2 div ?s) .. now2 div ?s + max 0 (?w2 div ?s)}.
      code_at P (i_secret t) c = token1"
    by auto
  with spec_verify_window(1) [OF dec step refl refl, where last_counter = None
      and tok = token1 and window_seconds = ?w2 and now = now2]
  obtain m2 where "spec_verify P kr token1 env ?w2 None now2 = Inr m2"
    by auto
  then show "returned (verify_totp ?T token1 env user1 window2 now2
      (store (verify_totp ?T token1 env user1 window1 now1 st1))) = Inr True"
    by (simp add: verify_totp_def plain_def spec_TOTP_def get_last_counter_def
        set_last_counter_def)
qed

text \<open>
  The code \<open>123456\<close> of counter 1000 verifies at time 30000 and again at time 30040,
  one step later, with a window of 30 seconds. Over the collaborator that stores the
  counter the same second submission is refused (C1).
\<close>

theorem default_accessors_disable_replay_protection_witness:
  "returned (verify_totp demo_Totp ''123456'' demo_envelope ''alice'' None 30000 Map.empty)
     = Inr True \<and>
   writes (verify_totp demo_Totp ''123456'' demo_envelope ''alice'' None 30000 Map.empty)
     = [(''alice'', \<lparr>tm_counter = 1000, tm_time = 30000\<rparr>)] \<and>
   (30040::int) div p_step_duration demo_params - max 0 (30 div p_step_duration demo_params)
     = 1000 \<and>
   (30040::int) div p_step_duration demo_params + max 0 (30 div p_step_duration demo_params)
     = 1002 \<and>
   returned (verify_totp demo_Totp ''123456'' demo_envelope ''alice'' (Some 30) 30040
     (store (verify_totp demo_Totp ''123456'' demo_envelope ''alice'' None 30000 Map.empty)))
     = Inr True"
proof -
  let ?t = "\<lparr>i_secret = ''S'', i_params = demo_params\<rparr>"
  let ?m = "\<lparr>tm_counter = 1000, tm_time = 30000\<rparr>"
  let ?first = "verify_totp (plain demo_TOTP) ''123456'' demo_envelope ''alice'' None 30000
      (Map.empty :: string \<rightharpoonup> int)"
  have r: "returned ?first = Inr True" and w: "writes ?first = [(''alice'', ?m)]"
    using demo_plain_call [of Map.empty] by (simp_all add: demo_Totp_def)
  have lo: "30040 div p_step_duration (i_params ?t)
      - max 0 ((case Some 30 of None \<Rightarrow> 0 | Some w \<Rightarrow> w) div p_step_duration (i_params ?t))
      \<le> tm_counter ?m"
    and hi: "tm_counter ?m \<le> 30040 div p_step_duration (i_params ?t)
      + max 0 ((case Some 30 of None \<Rightarrow> 0 | Some w \<Rightarrow> w) div p_step_duration (i_params ?t))"
    by (simp_all add: demo_params_def)
  have "returned (verify_totp (plain (spec_TOTP demo_primitives demo_keyring demo_params))
      ''123456'' demo_envelope ''alice'' (Some 30) 30040
      (store (verify_totp (plain (spec_TOTP demo_primitives demo_keyring demo_params))
         ''123456'' demo_envelope ''alice'' None 30000 (Map.empty :: string \<rightharpoonup> int))))
      = Inr True"
    by (rule default_accessors_disable_replay_protection
          [THEN conjunct2, THEN conjunct2, THEN conjunct2, THEN conjunct2, rule_format,
           where t = ?t and ?m1.0 = ?m])
      (use r w demo_decrypt lo hi in \<open>simp add: demo_TOTP_def\<close>)
  with r w show ?thesis
    by (simp add: demo_Totp_def demo_TOTP_def demo_params_def)
qed

subsection \<open>The stored secret\<close>

text \<open>
  C8. Over the SecretCodec of the specification, with a keyring whose current key
  identifier names one of its keys and a cipher whose decryption undoes its encryption
  of these bytes under that key: \<^verbatim>\<open>generate_totp_secret\<close> returns an envelope; decrypting
  that envelope with the same keyring gives back the bytes drawn and the parameters;
  and \<^verbatim>\<open>generate_totp_password\<close> on the envelope produces, at every time, the code of
  the original secret.
\<close>

theorem secret_round_trip:
  assumes lib: "totp self = spec_TOTP P kr prm"
    and key: "kr_keys kr (kr_current kr) = Some k"
    and cipher: "cipher_decrypt P k (cipher_encrypt P k entropy) = Some entropy"
  shows "\<exists>env. generate_totp_secret self entropy = Inr env \<and>
           decrypt P env kr = Inr \<lparr>i_secret = entropy, i_params = prm\<rparr> \<and>
           env_params env = prm \<and>
           (\<forall>now. generate_totp_password self env now =
                    spec_generate P \<lparr>i_secret = entropy, i_params = prm\<rparr> now)"
  using assms
  by (simp add: generate_totp_secret_def generate_totp_password_def spec_TOTP_def
      encrypt_def decrypt_def)

theorem secret_round_trip_witness:
  "kr_keys demo_keyring (kr_current demo_keyring) = Some ''k'' \<and>
   cipher_decrypt demo_primitives ''k'' (cipher_encrypt demo_primitives ''k'' ''S'') = Some ''S'' \<and>
   generate_totp_secret demo_Totp ''S'' = Inr demo_envelope \<and>
   generate_totp_password demo_Totp demo_envelope 30000 = Inr ''123456'' \<and>
   (\<exists>env. generate_totp_secret demo_Totp ''S'' = Inr env \<and>
      decrypt demo_primitives env demo_keyring =
        Inr \<lparr>i_secret = ''S'', i_params = demo_params\<rparr> \<and>
      env_params env = demo_params \<and>
      (\<forall>now. generate_totp_password demo_Totp env now =
         spec_generate demo_primitives \<lparr>i_secret = ''S'', i_params = demo_params\<rparr> now))"
proof -
  have key: "kr_keys demo_keyring (kr_current demo_keyring) = Some ''k''"
    by (simp add: demo_keyring_def)
  have cipher: "cipher_decrypt demo_primitives ''k'' (cipher_encrypt demo_primitives ''k'' ''S'')
      = Some ''S''"
    by (simp add: demo_primitives_def)
  have g: "generate_totp_secret demo_Totp ''S'' = Inr demo_envelope"
    by (simp add: generate_totp_secret_def demo_Totp_def plain_def spec_TOTP_def encrypt_def
        demo_defs)
  have p: "generate_totp_password demo_Totp demo_envelope 30000 = Inr ''123456''"
    by (simp add: generate_totp_password_def demo_Totp_def plain_def spec_TOTP_def decrypt_def
        spec_generate_def floordiv_def demo_defs)
  from secret_round_trip [OF demo_Totp_lib key cipher] key cipher g p show ?thesis
    by blast
qed

subsection \<open>The window\<close>




text \<open>
  This is not a matter of the codes chosen here. Codes have a fixed number of digits,
  so a secret has finitely many codes over infinitely many counters, and for any such
  code function there are a clock and a window at which the code from one step outside
  the window verifies true.
\<close>

lemma window_boundary_fails_whenever_codes_are_finitely_many:
  assumes lib: "totp self = spec_TOTP P kr prm"
    and dec: "decrypt P env kr = Inr t"
    and step: "0 < p_step_duration (i_params t)"
    and get: "self_get_last_counter self st user = Inr None"
    and set: "\<forall>m. fst (self_set_last_counter self user m st) = None"
    and fin: "finite (range (code_at P (i_secret t)))"
  shows "\<exists>now window_seconds center w.
           center = now div p_step_duration (i_params t) \<and>
           w = max 0 (window_seconds div p_step_duration (i_params t)) \<and>
           returned (verify_totp self (code_at P (i_secret t) (center - w - 1)) env user
             (Some window_seconds) now st) = Inr True"
proof -
  let ?s = "p_step_duration (i_params t)"
  from codes_collide [OF fin] obtain c1 c2 where lt: "c1 < c2"
    and eq: "code_at P (i_secret t) c1 = code_at P (i_secret t) c2" by blast
  let ?now = "c2 * ?s" and ?ws = "(c2 - c1 - 1) * ?s"
  from step have center: "c2 = ?now div ?s" and wdiv: "?ws div ?s = c2 - c1 - 1"
    by simp_all
  from lt wdiv have w: "c2 - c1 - 1 = max 0 (?ws div ?s)" by simp
  from step have step0: "?s \<noteq> 0" by simp
  have fresh: "case None of None \<Rightarrow> True | Some n \<Rightarrow> n < c2 - (c2 - c1 - 1)"
    by simp
  from lt eq have "\<exists>c \<in> {c2 - (c2 - c1 - 1) .. c2 + (c2 - c1 - 1)}.
      code_at P (i_secret t) c = code_at P (i_secret t) (c2 - (c2 - c1 - 1) - 1)"
    by auto
  with spec_verify_window(1) [OF dec step0 center w fresh,
      where tok = "code_at P (i_secret t) (c2 - (c2 - c1 - 1) - 1)"]
  obtain m where m: "spec_verify P kr (code_at P (i_secret t) (c2 - (c2 - c1 - 1) - 1)) env
      ?ws None ?now = Inr m"
    by auto
  from set have "fst (self_set_last_counter self user m st) = None" by simp
  then obtain st' where "self_set_last_counter self user m st = (None, st')"
    by (cases "self_set_last_counter self user m st") auto
  with m lib get
  have "returned (verify_totp self (code_at P (i_secret t) (c2 - (c2 - c1 - 1) - 1)) env user
      (Some ?ws) ?now st) = Inr True"
    by (simp add: verify_totp_def spec_TOTP_def)
  with center w show ?thesis
    by (metis (no_types))
qed



end
